theory Spec2Isabelle
  imports Main "HOL-Library.Word"
begin

section \<open>Package config: typed environment getters\<close>

text \<open>
  The process environment is a partial map from variable names to values: a variable
  can be absent, or present with any value, the empty string included.
  \<^verbatim>\<open>os.Getenv\<close> returns the value, and the empty string for an absent variable.
\<close>

type_synonym environ = "string \<rightharpoonup> string"

definition os_Getenv :: "environ \<Rightarrow> string \<Rightarrow> string" where
  "os_Getenv env key = (case env key of None \<Rightarrow> [] | Some v \<Rightarrow> v)"

subsection \<open>The parsers of the Go standard library that the getters call\<close>

text \<open>
  \<^verbatim>\<open>strconv.ParseUint\<close>, \<^verbatim>\<open>strconv.ParseInt\<close> and \<^verbatim>\<open>strconv.Atoi\<close>
  for base 10, as Go values \<open>(result, err)\<close>; \<open>None\<close> is Go's \<open>nil\<close> error.
  The type \<open>int\<close> has 64 bits (\<open>IntSize\<close>), as on every 64-bit target.
\<close>

datatype NumError = ErrSyntax | ErrRange

definition IntSize :: nat where
  "IntSize = 64"

definition maxUint64 :: nat where
  "maxUint64 = 2 ^ 64 - 1"

definition digit :: "char \<Rightarrow> nat option" where
  "digit c = (let n = (of_char c :: nat) in if 48 \<le> n \<and> n \<le> 57 then Some (n - 48) else None)"

text \<open>
  The loop of \<^verbatim>\<open>ParseUint\<close> over the bytes of the input: a byte that is not a
  decimal digit is a syntax error; \<open>n \<ge> cutoff\<close> means that \<open>n * 10\<close> overflows 64
  bits; \<open>n1 < n\<close> is the wrap-around test of the unsigned addition.
\<close>

fun parseUintLoop :: "nat \<Rightarrow> nat \<Rightarrow> string \<Rightarrow> nat \<times> NumError option" where
  "parseUintLoop maxVal n [] = (n, None)"
| "parseUintLoop maxVal n (c # cs) =
     (case digit c of
        None \<Rightarrow> (0, Some ErrSyntax)
      | Some d \<Rightarrow>
          if n \<ge> maxUint64 div 10 + 1 then (maxVal, Some ErrRange)
          else
            let n10 = n * 10;
                n1 = (n10 + d) mod 2 ^ 64
            in if n1 < n10 \<or> n1 > maxVal then (maxVal, Some ErrRange)
               else parseUintLoop maxVal n1 cs)"

definition ParseUint :: "string \<Rightarrow> nat \<Rightarrow> nat \<times> NumError option" where
  "ParseUint s bitSize =
     (if s = [] then (0, Some ErrSyntax)
      else
        let bits = (if bitSize = 0 then IntSize else bitSize);
            maxVal = 2 ^ bits - 1
        in parseUintLoop maxVal 0 s)"

definition ParseInt :: "string \<Rightarrow> nat \<Rightarrow> 64 word \<times> NumError option" where
  "ParseInt s bitSize =
     (case s of
        [] \<Rightarrow> (0, Some ErrSyntax)
      | c # cs \<Rightarrow>
          let neg = (c = CHR ''-'');
              s1 = (if c = CHR ''+'' \<or> c = CHR ''-'' then cs else s);
              (un, err) = ParseUint s1 bitSize
          in if err \<noteq> None \<and> err \<noteq> Some ErrRange then (0, err)
             else
               let bits = (if bitSize = 0 then IntSize else bitSize);
                   cutoff = 2 ^ (bits - 1)
               in if \<not> neg \<and> un \<ge> cutoff then (of_nat (cutoff - 1), Some ErrRange)
                  else if neg \<and> un > cutoff then (- of_nat cutoff, Some ErrRange)
                  else (if neg then - of_nat un else of_nat un, None))"

text \<open>
  \<^verbatim>\<open>Atoi(s)\<close> is \<^verbatim>\<open>ParseInt(s, 10, 0)\<close> converted to \<open>int\<close>; its fast path for
  short inputs computes the same result.
\<close>

definition Atoi :: "string \<Rightarrow> 64 word \<times> NumError option" where
  "Atoi s = ParseInt s 0"

text \<open>\<^verbatim>\<open>strconv.ParseBool\<close>: a switch over twelve literals.\<close>

definition ParseBool :: "string \<Rightarrow> bool \<times> NumError option" where
  "ParseBool str =
     (if str \<in> set [''1'', ''t'', ''T'', ''TRUE'', ''true'', ''True''] then (True, None)
      else if str \<in> set [''0'', ''f'', ''F'', ''FALSE'', ''false'', ''False''] then (False, None)
      else (False, Some ErrSyntax))"

text \<open>
  \<^verbatim>\<open>time.ParseDuration\<close>. A \<open>Duration\<close> is an \<open>int64\<close> of nanoseconds. The
  function consumes an optional sign, accepts the literal \<open>0\<close>, rejects the empty
  rest, and then sums \<open>number unit\<close> groups in a loop that uses \<open>float64\<close> for
  fractions. That loop is the parameter \<open>groups\<close>: it returns the magnitude in
  nanoseconds (at most \<open>2 ^ 63\<close>), or \<open>None\<close> for its errors.
\<close>

type_synonym Duration = "64 word"

datatype TimeError = InvalidDuration

definition ParseDuration :: "(string \<Rightarrow> nat option) \<Rightarrow> string \<Rightarrow> Duration \<times> TimeError option" where
  "ParseDuration groups s =
     (let neg = (s \<noteq> [] \<and> hd s = CHR ''-'');
          s1 = (if s \<noteq> [] \<and> (hd s = CHR ''-'' \<or> hd s = CHR ''+'') then tl s else s)
      in if s1 = ''0'' then (0, None)
         else if s1 = [] then (0, Some InvalidDuration)
         else
           (case groups s1 of
              None \<Rightarrow> (0, Some InvalidDuration)
            | Some d \<Rightarrow>
                if neg then (- of_nat d, None)
                else if d > 2 ^ 63 - 1 then (0, Some InvalidDuration)
                else (of_nat d, None)))"

subsection \<open>The getters\<close>

definition GetEnv :: "environ \<Rightarrow> string \<Rightarrow> string \<Rightarrow> string" where
  "GetEnv env key defaultValue =
     (let v = os_Getenv env key
      in if v \<noteq> [] then v else defaultValue)"

definition GetEnvInt :: "environ \<Rightarrow> string \<Rightarrow> 64 word \<Rightarrow> 64 word" where
  "GetEnvInt env key defaultValue =
     (let v = os_Getenv env key
      in if v \<noteq> [] then
           (let (i, err) = Atoi v in if err = None then i else defaultValue)
         else defaultValue)"

text \<open>\<^verbatim>\<open>int32(i)\<close> keeps the low 32 bits of the \<open>int64\<close>.\<close>

definition GetEnvInt32 :: "environ \<Rightarrow> string \<Rightarrow> 32 word \<Rightarrow> 32 word" where
  "GetEnvInt32 env key defaultValue =
     (let v = os_Getenv env key
      in if v \<noteq> [] then
           (let (i, err) = ParseInt v 32 in if err = None then ucast i else defaultValue)
         else defaultValue)"

definition GetEnvDuration ::
  "(string \<Rightarrow> nat option) \<Rightarrow> environ \<Rightarrow> string \<Rightarrow> Duration \<Rightarrow> Duration" where
  "GetEnvDuration groups env key defaultValue =
     (let v = os_Getenv env key
      in if v \<noteq> [] then
           (let (d, err) = ParseDuration groups v in if err = None then d else defaultValue)
         else defaultValue)"

definition GetEnvBool :: "environ \<Rightarrow> string \<Rightarrow> bool \<Rightarrow> bool" where
  "GetEnvBool env key defaultValue =
     (let v = os_Getenv env key
      in if v \<noteq> [] then
           (let (b, err) = ParseBool v in if err = None then b else defaultValue)
         else defaultValue)"

record Common =
  ServiceName :: string
  LogLevel :: string
  Environment :: string

definition LoadCommon :: "environ \<Rightarrow> Common" where
  "LoadCommon env =
     \<lparr> ServiceName = GetEnv env ''SERVICE_NAME'' ''unknown'',
       LogLevel = GetEnv env ''LOG_LEVEL'' ''info'',
       Environment = GetEnv env ''ENVIRONMENT'' ''development'' \<rparr>"

section \<open>Package logger: zerolog loggers carried in a context\<close>

subsection \<open>The part of zerolog that the repository uses\<close>

text \<open>
  A \<^verbatim>\<open>zerolog.Level\<close> is an \<open>int8\<close> with these named values.
\<close>

type_synonym Level = int

definition TraceLevel :: Level where "TraceLevel = - 1"
definition DebugLevel :: Level where "DebugLevel = 0"
definition InfoLevel :: Level where "InfoLevel = 1"
definition WarnLevel :: Level where "WarnLevel = 2"
definition ErrorLevel :: Level where "ErrorLevel = 3"
definition FatalLevel :: Level where "FatalLevel = 4"
definition PanicLevel :: Level where "PanicLevel = 5"
definition NoLevel :: Level where "NoLevel = 6"
definition Disabled :: Level where "Disabled = 7"

text \<open>
  The writer of a logger: standard output, zerolog's console writer over standard
  output, \<^verbatim>\<open>io.Discard\<close>, or some other writer, named by a number.
\<close>

datatype LevelWriter = Stdout | ConsoleWriter | Discard | OtherWriter nat

datatype Field = FStr string | FInt int | FDur Duration | FBool bool | FTimestamp

text \<open>
  A \<^verbatim>\<open>zerolog.Logger\<close> is a struct, passed by value. Of its fields the model keeps the
  writer \<open>w\<close> (\<open>None\<close> is \<open>nil\<close>), the minimum \<open>level\<close> and the \<open>context\<close>, the
  fields every line of the logger carries (\<open>None\<close> is the \<open>nil\<close> slice). Loggers have no
  sampler, no hooks other than the timestamp and no stack flag: these fields are unset in
  every logger that the repository builds. The timestamp hook is kept as the context
  field \<open>time\<close>.
\<close>

record Logger =
  lg_w :: "LevelWriter option"
  lg_level :: Level
  lg_context :: "(string \<times> Field) list option"

definition lg_fields :: "Logger \<Rightarrow> (string \<times> Field) list" where
  "lg_fields l = (case lg_context l of None \<Rightarrow> [] | Some fs \<Rightarrow> fs)"

text \<open>\<^verbatim>\<open>zerolog.New(w)\<close>: a \<open>nil\<close> writer is replaced by \<^verbatim>\<open>io.Discard\<close>.\<close>

definition zerolog_New :: "LevelWriter option \<Rightarrow> Logger" where
  "zerolog_New wr =
     \<lparr> lg_w = Some (case wr of None \<Rightarrow> Discard | Some x \<Rightarrow> x),
       lg_level = TraceLevel,
       lg_context = None \<rparr>"

definition Logger_Level :: "Logger \<Rightarrow> Level \<Rightarrow> Logger" where
  "Logger_Level l lvl = l\<lparr>lg_level := lvl\<rparr>"

definition Nop :: Logger where
  "Nop = Logger_Level (zerolog_New None) Disabled"

text \<open>
  \<^verbatim>\<open>l.With()\<close> opens a context builder on a copy of the logger, with a context that
  is no longer \<open>nil\<close>; \<^verbatim>\<open>Str\<close> and \<^verbatim>\<open>Timestamp\<close> extend it; \<^verbatim>\<open>Logger()\<close> returns
  the logger built.
\<close>

definition Logger_With :: "Logger \<Rightarrow> Logger" where
  "Logger_With l = l\<lparr>lg_context := Some (lg_fields l)\<rparr>"

definition Context_Str :: "string \<Rightarrow> string \<Rightarrow> Logger \<Rightarrow> Logger" where
  "Context_Str k v c = c\<lparr>lg_context := Some (lg_fields c @ [(k, FStr v)])\<rparr>"

definition Context_Timestamp :: "Logger \<Rightarrow> Logger" where
  "Context_Timestamp c = c\<lparr>lg_context := Some (lg_fields c @ [(''time'', FTimestamp)])\<rparr>"

definition Context_Logger :: "Logger \<Rightarrow> Logger" where
  "Context_Logger c = c"

text \<open>
  What the process has observably done with its loggers: the lines written, in order.
  The world also holds the clock that \<^verbatim>\<open>time.Now\<close> reads (nanoseconds) and zerolog's
  global level.
\<close>

record LogLine =
  line_writer :: LevelWriter
  line_level :: Level
  line_fields :: "(string \<times> Field) list"
  line_msg :: string

record World =
  clock :: int
  globalLevel :: Level
  written :: "LogLine list"

text \<open>
  An event is a line under construction. \<^verbatim>\<open>l.Info()\<close>, \<^verbatim>\<open>l.Warn()\<close> and
  \<^verbatim>\<open>l.Error()\<close> return \<open>nil\<close> (\<open>None\<close>) when the logger does not log at that level:
  its writer is \<open>nil\<close>, or the level is below the logger's or the global level. Every
  method of a \<open>nil\<close> event does nothing.
\<close>

record Event =
  ev_w :: LevelWriter
  ev_level :: Level
  ev_fields :: "(string \<times> Field) list"

definition should :: "Logger \<Rightarrow> Level \<Rightarrow> World \<Rightarrow> bool" where
  "should l lvl world =
     (if lg_w l = None then False
      else if lvl < lg_level l \<or> lvl < globalLevel world then False
      else True)"

definition newEvent :: "Logger \<Rightarrow> Level \<Rightarrow> World \<Rightarrow> Event option" where
  "newEvent l lvl world =
     (if \<not> should l lvl world then None
      else
        (case lg_w l of
           None \<Rightarrow> None
         | Some wr \<Rightarrow> Some \<lparr> ev_w = wr, ev_level = lvl, ev_fields = lg_fields l \<rparr>))"

definition Logger_Info :: "Logger \<Rightarrow> World \<Rightarrow> Event option" where
  "Logger_Info l world = newEvent l InfoLevel world"

definition Logger_Warn :: "Logger \<Rightarrow> World \<Rightarrow> Event option" where
  "Logger_Warn l world = newEvent l WarnLevel world"

definition Logger_Error :: "Logger \<Rightarrow> World \<Rightarrow> Event option" where
  "Logger_Error l world = newEvent l ErrorLevel world"

definition Event_field :: "string \<Rightarrow> Field \<Rightarrow> Event option \<Rightarrow> Event option" where
  "Event_field k v e =
     (case e of
        None \<Rightarrow> None
      | Some ev \<Rightarrow> Some (ev\<lparr>ev_fields := ev_fields ev @ [(k, v)]\<rparr>))"

definition Event_Str :: "string \<Rightarrow> string \<Rightarrow> Event option \<Rightarrow> Event option" where
  "Event_Str k v e = Event_field k (FStr v) e"

definition Event_Int :: "string \<Rightarrow> int \<Rightarrow> Event option \<Rightarrow> Event option" where
  "Event_Int k v e = Event_field k (FInt v) e"

definition Event_Dur :: "string \<Rightarrow> Duration \<Rightarrow> Event option \<Rightarrow> Event option" where
  "Event_Dur k v e = Event_field k (FDur v) e"

definition Event_Bool :: "string \<Rightarrow> bool \<Rightarrow> Event option \<Rightarrow> Event option" where
  "Event_Bool k v e = Event_field k (FBool v) e"

definition Event_Msg :: "Event option \<Rightarrow> string \<Rightarrow> World \<Rightarrow> World" where
  "Event_Msg e msg world =
     (case e of
        None \<Rightarrow> world
      | Some ev \<Rightarrow>
          world\<lparr>written := written world @
            [\<lparr> line_writer = ev_w ev, line_level = ev_level ev,
               line_fields = ev_fields ev, line_msg = msg \<rparr>]\<rparr>)"

text \<open>
  \<^verbatim>\<open>time.Since(start)\<close> is \<^verbatim>\<open>time.Now().Sub(start)\<close>, which saturates at the
  bounds of \<open>int64\<close>.
\<close>

definition time_Sub :: "int \<Rightarrow> int \<Rightarrow> Duration" where
  "time_Sub t u =
     (let d = t - u
      in if d > 2 ^ 63 - 1 then of_int (2 ^ 63 - 1)
         else if d < - (2 ^ 63) then of_int (- (2 ^ 63))
         else of_int d)"

definition time_Since :: "World \<Rightarrow> int \<Rightarrow> Duration" where
  "time_Since world start = time_Sub (clock world) start"

subsection \<open>Contexts\<close>

text \<open>
  A \<^verbatim>\<open>context.Context\<close> is the chain of the values attached to it, the most recent
  first; \<^verbatim>\<open>Value\<close> returns the first value found under a key. The keys are the
  unexported key of package logger, chi's request-id key, gRPC's keys for the incoming
  metadata and the peer, and any key of the application.
\<close>

datatype CtxKey = ctxKey | RequestIDKey | mdIncomingKey | peerKey | AppKey string

datatype CtxVal =
    LoggerVal Logger
  | StringVal string
  | MDVal "(string \<times> string list) list"
  | PeerVal "string option"
  | AppVal string

type_synonym Context = "(CtxKey \<times> CtxVal) list"

definition context_Background :: Context where
  "context_Background = []"

definition context_WithValue :: "Context \<Rightarrow> CtxKey \<Rightarrow> CtxVal \<Rightarrow> Context" where
  "context_WithValue ctx k v = (k, v) # ctx"

definition context_Value :: "Context \<Rightarrow> CtxKey \<Rightarrow> CtxVal option" where
  "context_Value ctx k = map_of ctx k"

subsection \<open>logger.go\<close>

definition parseLevel :: "string \<Rightarrow> Level" where
  "parseLevel level =
     (if level = ''trace'' then TraceLevel
      else if level = ''debug'' then DebugLevel
      else if level = ''info'' then InfoLevel
      else if level = ''warn'' then WarnLevel
      else if level = ''error'' then ErrorLevel
      else if level = ''fatal'' then FatalLevel
      else if level = ''panic'' then PanicLevel
      else InfoLevel)"

definition New :: "environ \<Rightarrow> string \<Rightarrow> string \<Rightarrow> Logger" where
  "New env level serviceName =
     (let output = (if os_Getenv env ''LOG_FORMAT'' \<noteq> ''json'' then ConsoleWriter else Stdout);
          lvl = parseLevel level
      in Context_Logger
           (Context_Str ''service'' serviceName
             (Context_Timestamp
               (Logger_With (Logger_Level (zerolog_New (Some output)) lvl)))))"

definition With :: "Context \<Rightarrow> Logger \<Rightarrow> Context" where
  "With ctx log = context_WithValue ctx ctxKey (LoggerVal log)"

text \<open>
  The type assertion \<^verbatim>\<open>.(zerolog.Logger)\<close> succeeds exactly on a logger value.
\<close>

definition From :: "Context \<Rightarrow> Logger" where
  "From ctx =
     (case context_Value ctx ctxKey of
        Some (LoggerVal log) \<Rightarrow> log
      | _ \<Rightarrow> Nop)"

definition WithRequestID :: "Context \<Rightarrow> string \<Rightarrow> Context" where
  "WithRequestID ctx requestID =
     (let log = Context_Logger (Context_Str ''request_id'' requestID (Logger_With (From ctx)))
      in With ctx log)"

section \<open>Package httpx: the request-logging middleware\<close>

subsection \<open>Requests, response writers and handlers\<close>

text \<open>
  Of a \<^verbatim>\<open>*http.Request\<close> the middleware reads the method, the path of the URL, the
  remote address, the header (for \<^verbatim>\<open>UserAgent()\<close>), the major protocol version and
  the context. \<^verbatim>\<open>WithContext\<close> returns a copy of the request with a new context.
\<close>

record Request =
  Method :: string
  URL_Path :: string
  RemoteAddr :: string
  Header :: "(string \<times> string list) list"
  ProtoMajor :: int
  req_ctx :: Context

definition Request_Context :: "Request \<Rightarrow> Context" where
  "Request_Context r = req_ctx r"

definition Request_WithContext :: "Request \<Rightarrow> Context \<Rightarrow> Request" where
  "Request_WithContext r ctx = r\<lparr>req_ctx := ctx\<rparr>"

definition Header_Get :: "(string \<times> string list) list \<Rightarrow> string \<Rightarrow> string" where
  "Header_Get h key =
     (case map_of h key of
        None \<Rightarrow> []
      | Some [] \<Rightarrow> []
      | Some (v # vs) \<Rightarrow> v)"

definition Request_UserAgent :: "Request \<Rightarrow> string" where
  "Request_UserAgent r = Header_Get (Header r) ''User-Agent''"

text \<open>chi's \<^verbatim>\<open>middleware.GetReqID\<close>: the string under chi's key, or the empty string.\<close>

definition GetReqID :: "Context \<Rightarrow> string" where
  "GetReqID ctx =
     (case context_Value ctx RequestIDKey of
        Some (StringVal reqID) \<Rightarrow> reqID
      | _ \<Rightarrow> [])"

text \<open>
  An \<^verbatim>\<open>http.ResponseWriter\<close> is the server's own writer, of some type \<open>'u\<close>, or
  chi's wrapper around a writer, which records the status code and the number of bytes
  that the handler wrote through it. \<^verbatim>\<open>NewWrapResponseWriter\<close> starts with both at 0.
  \<open>Status\<close> and \<open>BytesWritten\<close> are methods of the wrapper only; the middleware calls
  them on the wrapper it made, so their value on a plain writer is never used by a
  handler that returns the writer it was given.
\<close>

datatype 'u ResponseWriter =
    Plain 'u
  | Wrapped "'u ResponseWriter" int int

definition NewWrapResponseWriter :: "'u ResponseWriter \<Rightarrow> int \<Rightarrow> 'u ResponseWriter" where
  "NewWrapResponseWriter w protoMajor = Wrapped w 0 0"

fun Status :: "'u ResponseWriter \<Rightarrow> int" where
  "Status (Wrapped w code bytes) = code"
| "Status (Plain u) = 0"

fun BytesWritten :: "'u ResponseWriter \<Rightarrow> int" where
  "BytesWritten (Wrapped w code bytes) = bytes"
| "BytesWritten (Plain u) = 0"

fun Unwrap :: "'u ResponseWriter \<Rightarrow> 'u ResponseWriter" where
  "Unwrap (Wrapped w code bytes) = w"
| "Unwrap (Plain u) = Plain u"

text \<open>
  \<^verbatim>\<open>ServeHTTP\<close> of a handler: from the writer, the request and the world to the writer
  and the world it leaves behind, or \<open>None\<close> when the handler panics.
\<close>

type_synonym 'u Handler =
  "'u ResponseWriter \<Rightarrow> Request \<Rightarrow> World \<Rightarrow> ('u ResponseWriter \<times> World) option"

subsection \<open>RequestLogger and RequestLoggerWithOpts\<close>

definition RequestLogger :: "Logger \<Rightarrow> 'u Handler \<Rightarrow> 'u Handler" where
  "RequestLogger log next w r world =
     (let start = clock world;
          requestID = GetReqID (Request_Context r);
          requestID = (if requestID = [] then ''unknown'' else requestID);
          reqLog = Context_Logger
                     (Context_Str ''remote_addr'' (RemoteAddr r)
                       (Context_Str ''path'' (URL_Path r)
                         (Context_Str ''method'' (Method r)
                           (Context_Str ''request_id'' requestID (Logger_With log)))));
          ctx = With (Request_Context r) reqLog;
          r = Request_WithContext r ctx;
          ww = NewWrapResponseWriter w (ProtoMajor r)
      in case next ww r world of
           None \<Rightarrow> None
         | Some (ww, world) \<Rightarrow>
             let duration = time_Since world start;
                 status = Status ww;
                 event = Logger_Info reqLog world;
                 event = (if status \<ge> 500 then Logger_Error reqLog world
                          else if status \<ge> 400 then Logger_Warn reqLog world
                          else event)
             in Some (Unwrap ww,
                  Event_Msg
                    (Event_Dur ''duration'' duration
                      (Event_Int ''bytes'' (BytesWritten ww)
                        (Event_Int ''status'' status event)))
                    ''request completed'' world))"

record RequestLoggerOptions =
  SkipPaths :: "string list"
  LogRequestBody :: bool
  LogResponseBody :: bool

definition RequestLoggerWithOpts ::
  "Logger \<Rightarrow> RequestLoggerOptions \<Rightarrow> 'u Handler \<Rightarrow> 'u Handler" where
  "RequestLoggerWithOpts log opts next w r world =
     (let skipMap = foldl (\<lambda>m p. m(p \<mapsto> True)) Map.empty (SkipPaths opts)
      in if (case skipMap (URL_Path r) of None \<Rightarrow> False | Some b \<Rightarrow> b) then next w r world
         else
           let start = clock world;
               requestID = GetReqID (Request_Context r);
               requestID = (if requestID = [] then ''unknown'' else requestID);
               reqLog = Context_Logger
                          (Context_Str ''user_agent'' (Request_UserAgent r)
                            (Context_Str ''remote_addr'' (RemoteAddr r)
                              (Context_Str ''path'' (URL_Path r)
                                (Context_Str ''method'' (Method r)
                                  (Context_Str ''request_id'' requestID (Logger_With log))))));
               ctx = With (Request_Context r) reqLog;
               r = Request_WithContext r ctx;
               ww = NewWrapResponseWriter w (ProtoMajor r)
           in case next ww r world of
                None \<Rightarrow> None
              | Some (ww, world) \<Rightarrow>
                  let duration = time_Since world start;
                      status = Status ww;
                      event = Logger_Info reqLog world;
                      event = (if status \<ge> 500 then Logger_Error reqLog world
                               else if status \<ge> 400 then Logger_Warn reqLog world
                               else event)
                  in Some (Unwrap ww,
                       Event_Msg
                         (Event_Dur ''duration'' duration
                           (Event_Int ''bytes'' (BytesWritten ww)
                             (Event_Int ''status'' status event)))
                         ''request completed'' world))"

subsection \<open>A request, a world and a handler to run the middleware on\<close>

text \<open>
  \<open>statusHandler code n\<close> writes the status \<open>code\<close> and \<open>n\<close> bytes through the
  writer it is given, logs nothing and returns.
\<close>

definition statusHandler :: "int \<Rightarrow> int \<Rightarrow> unit Handler" where
  "statusHandler code n w r world =
     Some (case w of Wrapped u c b \<Rightarrow> Wrapped u code n | Plain u \<Rightarrow> Plain u, world)"

definition usersRequest :: Request where
  "usersRequest =
     \<lparr> Method = ''GET'', URL_Path = ''/users'', RemoteAddr = ''10.0.0.7:51234'',
       Header = [], ProtoMajor = 1, req_ctx = context_Background \<rparr>"

definition healthRequest :: Request where
  "healthRequest = usersRequest\<lparr>URL_Path := ''/health''\<rparr>"

definition quietWorld :: World where
  "quietWorld = \<lparr> clock = 0, globalLevel = TraceLevel, written = [] \<rparr>"

definition skipHealth :: RequestLoggerOptions where
  "skipHealth = \<lparr> SkipPaths = [''/health'', ''/metrics''], LogRequestBody = False, LogResponseBody = False \<rparr>"

section \<open>Package httpx: JSON response helpers\<close>

subsection \<open>JSON documents and encoding/json\<close>

datatype JSON =
    JNull
  | JBool bool
  | JNumber int
  | JString string
  | JArray "JSON list"
  | JObject "(string \<times> JSON) list"

text \<open>
  A Go value passed as \<^verbatim>\<open>interface{}\<close> is modelled by what \<^verbatim>\<open>encoding/json\<close> does
  with it: the \<open>nil\<close> interface; a value that marshals to a JSON document; or a value
  whose marshalling returns an error (a channel, a function, a NaN).
\<close>

datatype Payload = NilValue | Marshals JSON | Unsupported

record Response =
  Data :: Payload
  Meta :: Payload
  RequestID :: string

record ErrorDetail =
  Code :: string
  Message :: string

record ErrorResponse =
  Error :: ErrorDetail
  Error_RequestID :: string

text \<open>
  A struct field of interface type with the tag option \<open>omitempty\<close> is left out when
  the interface is \<open>nil\<close>; a string field with \<open>omitempty\<close> is left out when the
  string is empty. Marshalling a struct fails when marshalling one of its fields fails.
  Fields appear in the order of the struct.
\<close>

fun marshalInterface :: "string \<Rightarrow> bool \<Rightarrow> Payload \<Rightarrow> (string \<times> JSON) list option" where
  "marshalInterface name omitempty NilValue = Some (if omitempty then [] else [(name, JNull)])"
| "marshalInterface name omitempty (Marshals j) = Some [(name, j)]"
| "marshalInterface name omitempty Unsupported = None"

definition marshalString :: "string \<Rightarrow> bool \<Rightarrow> string \<Rightarrow> (string \<times> JSON) list" where
  "marshalString name omitempty s = (if omitempty \<and> s = [] then [] else [(name, JString s)])"

definition marshalResponse :: "Response \<Rightarrow> JSON option" where
  "marshalResponse resp =
     (case marshalInterface ''data'' True (Data resp) of
        None \<Rightarrow> None
      | Some d \<Rightarrow>
          (case marshalInterface ''meta'' True (Meta resp) of
             None \<Rightarrow> None
           | Some m \<Rightarrow> Some (JObject (d @ m @ marshalString ''request_id'' True (RequestID resp)))))"

definition marshalErrorDetail :: "ErrorDetail \<Rightarrow> JSON" where
  "marshalErrorDetail d =
     JObject (marshalString ''code'' False (Code d) @ marshalString ''message'' False (Message d))"

definition marshalErrorResponse :: "ErrorResponse \<Rightarrow> JSON option" where
  "marshalErrorResponse resp =
     Some (JObject ([(''error'', marshalErrorDetail (Error resp))] @
                    marshalString ''request_id'' True (Error_RequestID resp)))"

text \<open>The values that \<open>WriteJSON\<close> is given: one of the two envelopes, or any other value.\<close>

datatype Value = VResponse Response | VErrorResponse ErrorResponse | VOther Payload

fun json_Marshal :: "Value \<Rightarrow> JSON option" where
  "json_Marshal (VResponse resp) = marshalResponse resp"
| "json_Marshal (VErrorResponse resp) = marshalErrorResponse resp"
| "json_Marshal (VOther NilValue) = Some JNull"
| "json_Marshal (VOther (Marshals j)) = Some j"
| "json_Marshal (VOther Unsupported) = None"

subsection \<open>The writer of a response\<close>

text \<open>
  The response helpers call \<open>Header\<close>, \<open>WriteHeader\<close> and \<open>Write\<close> of the writer.
  Its state is the header map, the status code once written, and the body: the chunks
  written, each the output of one \<^verbatim>\<open>Encoder.Encode\<close> (the text of a JSON document
  and a newline) or a text. A second \<open>WriteHeader\<close> is ignored, and the first \<open>Write\<close>
  writes the status 200 if none was written.
\<close>

datatype Chunk = JSONLine JSON | Text string

record Recorder =
  rec_header :: "string \<rightharpoonup> string"
  rec_code :: "int option"
  rec_body :: "Chunk list"

definition Header_Set :: "Recorder \<Rightarrow> string \<Rightarrow> string \<Rightarrow> Recorder" where
  "Header_Set w k v = w\<lparr>rec_header := (rec_header w)(k \<mapsto> v)\<rparr>"

definition Header_Del :: "Recorder \<Rightarrow> string \<Rightarrow> Recorder" where
  "Header_Del w k = w\<lparr>rec_header := (rec_header w)(k := None)\<rparr>"

definition WriteHeader :: "Recorder \<Rightarrow> int \<Rightarrow> Recorder" where
  "WriteHeader w code = (if rec_code w = None then w\<lparr>rec_code := Some code\<rparr> else w)"

definition Write :: "Recorder \<Rightarrow> Chunk \<Rightarrow> Recorder" where
  "Write w c =
     (let w = (if rec_code w = None then WriteHeader w 200 else w)
      in w\<lparr>rec_body := rec_body w @ [c]\<rparr>)"

text \<open>
  \<^verbatim>\<open>json.NewEncoder(w).Encode(v)\<close> marshals first and writes only a complete document;
  the result is the writer and the error.
\<close>

datatype EncodeError = MarshalError

definition Encoder_Encode :: "Recorder \<Rightarrow> Value \<Rightarrow> Recorder \<times> EncodeError option" where
  "Encoder_Encode w v =
     (case json_Marshal v of
        None \<Rightarrow> (w, Some MarshalError)
      | Some j \<Rightarrow> (Write w (JSONLine j), None))"

definition http_Error :: "Recorder \<Rightarrow> string \<Rightarrow> int \<Rightarrow> Recorder" where
  "http_Error w error code =
     (let w = Header_Del w ''Content-Length'';
          w = Header_Set w ''Content-Type'' ''text/plain; charset=utf-8'';
          w = Header_Set w ''X-Content-Type-Options'' ''nosniff'';
          w = WriteHeader w code
      in Write w (Text (error @ [CHR 0x0A])))"

subsection \<open>render.go\<close>

definition StatusBadRequest :: int where "StatusBadRequest = 400"
definition StatusUnauthorized :: int where "StatusUnauthorized = 401"
definition StatusForbidden :: int where "StatusForbidden = 403"
definition StatusNotFound :: int where "StatusNotFound = 404"
definition StatusConflict :: int where "StatusConflict = 409"
definition StatusUnprocessableEntity :: int where "StatusUnprocessableEntity = 422"
definition StatusInternalServerError :: int where "StatusInternalServerError = 500"
definition StatusServiceUnavailable :: int where "StatusServiceUnavailable = 503"
definition StatusNoContent :: int where "StatusNoContent = 204"

definition encodeFailed :: string where
  \<open>encodeFailed = ''{"error":{"code":"internal_error","message":"failed to encode response"}}''\<close>

definition WriteJSON :: "Recorder \<Rightarrow> Request \<Rightarrow> int \<Rightarrow> Value \<Rightarrow> Recorder" where
  "WriteJSON w r status v =
     (let w = Header_Set w ''Content-Type'' ''application/json'';
          w = WriteHeader w status
      in if v \<noteq> VOther NilValue then
           (let (w, err) = Encoder_Encode w v
            in if err \<noteq> None then http_Error w encodeFailed StatusInternalServerError
               else w)
         else w)"

definition WriteData :: "Recorder \<Rightarrow> Request \<Rightarrow> int \<Rightarrow> Payload \<Rightarrow> Recorder" where
  "WriteData w r status data =
     (let requestID = GetReqID (Request_Context r);
          resp = \<lparr> Data = data, Meta = NilValue, RequestID = requestID \<rparr>
      in WriteJSON w r status (VResponse resp))"

definition WriteDataWithMeta ::
  "Recorder \<Rightarrow> Request \<Rightarrow> int \<Rightarrow> Payload \<Rightarrow> Payload \<Rightarrow> Recorder" where
  "WriteDataWithMeta w r status data meta =
     (let requestID = GetReqID (Request_Context r);
          resp = \<lparr> Data = data, Meta = meta, RequestID = requestID \<rparr>
      in WriteJSON w r status (VResponse resp))"

definition WriteError :: "Recorder \<Rightarrow> Request \<Rightarrow> int \<Rightarrow> string \<Rightarrow> string \<Rightarrow> Recorder" where
  "WriteError w r status code message =
     (let requestID = GetReqID (Request_Context r);
          resp = \<lparr> Error = \<lparr> Code = code, Message = message \<rparr>, Error_RequestID = requestID \<rparr>
      in WriteJSON w r status (VErrorResponse resp))"

definition WriteBadRequest :: "Recorder \<Rightarrow> Request \<Rightarrow> string \<Rightarrow> Recorder" where
  "WriteBadRequest w r message = WriteError w r StatusBadRequest ''bad_request'' message"

definition WriteUnauthorized :: "Recorder \<Rightarrow> Request \<Rightarrow> string \<Rightarrow> Recorder" where
  "WriteUnauthorized w r message = WriteError w r StatusUnauthorized ''unauthorized'' message"

definition WriteForbidden :: "Recorder \<Rightarrow> Request \<Rightarrow> string \<Rightarrow> Recorder" where
  "WriteForbidden w r message = WriteError w r StatusForbidden ''forbidden'' message"

definition WriteNotFound :: "Recorder \<Rightarrow> Request \<Rightarrow> string \<Rightarrow> Recorder" where
  "WriteNotFound w r message = WriteError w r StatusNotFound ''not_found'' message"

definition WriteConflict :: "Recorder \<Rightarrow> Request \<Rightarrow> string \<Rightarrow> Recorder" where
  "WriteConflict w r message = WriteError w r StatusConflict ''conflict'' message"

definition WriteUnprocessable :: "Recorder \<Rightarrow> Request \<Rightarrow> string \<Rightarrow> Recorder" where
  "WriteUnprocessable w r message =
     WriteError w r StatusUnprocessableEntity ''unprocessable_entity'' message"

definition WriteInternalError :: "Recorder \<Rightarrow> Request \<Rightarrow> string \<Rightarrow> Recorder" where
  "WriteInternalError w r message =
     WriteError w r StatusInternalServerError ''internal_error'' message"

definition WriteServiceUnavailable :: "Recorder \<Rightarrow> Request \<Rightarrow> string \<Rightarrow> Recorder" where
  "WriteServiceUnavailable w r message =
     WriteError w r StatusServiceUnavailable ''service_unavailable'' message"

definition NoContent :: "Recorder \<Rightarrow> Recorder" where
  "NoContent w = WriteHeader w StatusNoContent"

definition newRecorder :: Recorder where
  "newRecorder = \<lparr> rec_header = Map.empty, rec_code = None, rec_body = [] \<rparr>"

definition tracedRequest :: Request where
  "tracedRequest =
     usersRequest\<lparr>req_ctx := context_WithValue context_Background RequestIDKey (StringVal ''req-1'')\<rparr>"

section \<open>Properties of package config\<close>

lemma ParseInt_empty: "ParseInt [] bitSize = (0, Some ErrSyntax)"
  by (simp add: ParseInt_def)

lemma Atoi_empty: "Atoi [] = (0, Some ErrSyntax)"
  by (simp add: Atoi_def ParseInt_empty)

lemma ParseBool_empty: "ParseBool [] = (False, Some ErrSyntax)"
  by (simp add: ParseBool_def)

lemma ParseDuration_empty: "ParseDuration groups [] = (0, Some InvalidDuration)"
  by (simp add: ParseDuration_def)

lemma os_Getenv_absent: "env key = None \<Longrightarrow> os_Getenv env key = []"
  by (simp add: os_Getenv_def)

lemma os_Getenv_present: "env key = Some v \<Longrightarrow> os_Getenv env key = v"
  by (simp add: os_Getenv_def)


text \<open>
  Claim C1, as amended. For every environment, key and default: each getter returns a
  plain value (no error is part of its result). \<open>GetEnvInt\<close>, \<open>GetEnvInt32\<close>,
  \<open>GetEnvDuration\<close> and \<open>GetEnvBool\<close> return the parsed value when the variable
  is present and its parser reports no error, and exactly the supplied default when the
  variable is absent or its parser reports an error. \<open>GetEnv\<close> returns the value of
  a variable that is present and not empty, and the default when the variable is absent
  or present with the empty string.
\<close>

theorem C1_getters:
  "GetEnv env key ds = (case env key of None \<Rightarrow> ds | Some v \<Rightarrow> if v = [] then ds else v)
   \<and> GetEnvInt env key di =
       (case env key of None \<Rightarrow> di
        | Some v \<Rightarrow> (case Atoi v of (i, None) \<Rightarrow> i | (i, Some e) \<Rightarrow> di))
   \<and> GetEnvInt32 env key dj =
       (case env key of None \<Rightarrow> dj
        | Some v \<Rightarrow> (case ParseInt v 32 of (i, None) \<Rightarrow> ucast i | (i, Some e) \<Rightarrow> dj))
   \<and> GetEnvDuration groups env key dd =
       (case env key of None \<Rightarrow> dd
        | Some v \<Rightarrow> (case ParseDuration groups v of (d, None) \<Rightarrow> d | (d, Some e) \<Rightarrow> dd))
   \<and> GetEnvBool env key db =
       (case env key of None \<Rightarrow> db
        | Some v \<Rightarrow> (case ParseBool v of (b, None) \<Rightarrow> b | (b, Some e) \<Rightarrow> db))"
proof (cases "env key")
  case None
  then show ?thesis
    by (simp add: GetEnv_def GetEnvInt_def GetEnvInt32_def GetEnvDuration_def GetEnvBool_def
        os_Getenv_absent)
next
  case (Some v)
  show ?thesis
  proof (cases "v = []")
    case True
    with Some show ?thesis
      by (simp add: GetEnv_def GetEnvInt_def GetEnvInt32_def GetEnvDuration_def GetEnvBool_def
          os_Getenv_present Atoi_empty ParseInt_empty ParseBool_empty ParseDuration_empty)
  next
    case False
    with Some show ?thesis
      by (simp add: GetEnv_def GetEnvInt_def GetEnvInt32_def GetEnvDuration_def GetEnvBool_def
          os_Getenv_present split: prod.splits option.splits)
  qed
qed

theorem C1_getters_witness:
  "GetEnv (Map.empty(''LOG_LEVEL'' \<mapsto> ''debug'')) ''LOG_LEVEL'' ''info'' = ''debug''
   \<and> GetEnv Map.empty ''LOG_LEVEL'' ''info'' = ''info''
   \<and> GetEnvInt (Map.empty(''PORT'' \<mapsto> ''8080'')) ''PORT'' 3000 = 8080
   \<and> GetEnvInt (Map.empty(''PORT'' \<mapsto> ''80a'')) ''PORT'' 3000 = 3000
   \<and> GetEnvInt32 (Map.empty(''MAX_CONNS'' \<mapsto> ''-20'')) ''MAX_CONNS'' 10 = - 20
   \<and> GetEnvInt32 (Map.empty(''MAX_CONNS'' \<mapsto> ''2147483648'')) ''MAX_CONNS'' 10 = 10
   \<and> GetEnvDuration (\<lambda>s. if s = ''30s'' then Some 30000000000 else None)
         (Map.empty(''TIMEOUT'' \<mapsto> ''30s'')) ''TIMEOUT'' 5000000000 = 30000000000
   \<and> GetEnvBool (Map.empty(''DEBUG'' \<mapsto> ''true'')) ''DEBUG'' False = True
   \<and> GetEnvBool (Map.empty(''DEBUG'' \<mapsto> ''yes'')) ''DEBUG'' False = False"
  using C1_getters [of "Map.empty(''LOG_LEVEL'' \<mapsto> ''debug'')" "''LOG_LEVEL''" "''info''"]
    C1_getters [of "Map.empty" "''LOG_LEVEL''" "''info''"]
    C1_getters [of "Map.empty(''PORT'' \<mapsto> ''8080'')" "''PORT''" _ 3000]
    C1_getters [of "Map.empty(''PORT'' \<mapsto> ''80a'')" "''PORT''" _ 3000]
    C1_getters [of "Map.empty(''MAX_CONNS'' \<mapsto> ''-20'')" "''MAX_CONNS''" _ _ 10]
    C1_getters [of "Map.empty(''MAX_CONNS'' \<mapsto> ''2147483648'')" "''MAX_CONNS''" _ _ 10]
    C1_getters [of "Map.empty(''TIMEOUT'' \<mapsto> ''30s'')" "''TIMEOUT''" _ _ _
      "\<lambda>s. if s = ''30s'' then Some 30000000000 else None" 5000000000]
    C1_getters [of "Map.empty(''DEBUG'' \<mapsto> ''true'')" "''DEBUG''" _ _ _ _ _ False]
    C1_getters [of "Map.empty(''DEBUG'' \<mapsto> ''yes'')" "''DEBUG''" _ _ _ _ _ False]
  by (simp add: Atoi_def ParseInt_def ParseUint_def IntSize_def maxUint64_def digit_def
      ParseBool_def ParseDuration_def)


text \<open>
  Claim C1 as stated fails for the string getter: the variable \<open>GREETING\<close> is
  present, its value (the empty string) is a well-formed string, and \<open>GetEnv\<close>
  returns the default \<open>hello\<close> instead of that value.
\<close>

theorem C1_counterexample:
  "(Map.empty(''GREETING'' \<mapsto> [])) ''GREETING'' = Some []
   \<and> GetEnv (Map.empty(''GREETING'' \<mapsto> [])) ''GREETING'' ''hello'' = ''hello''
   \<and> GetEnv (Map.empty(''GREETING'' \<mapsto> [])) ''GREETING'' ''hello'' \<noteq> []"
  by (simp add: GetEnv_def os_Getenv_def)


text \<open>
  Claim C10. A variable that is present with the empty string makes every getter return
  the supplied default, which is also what the getter returns once the variable is
  removed from the environment; the string getter then never returns the empty string
  for a default that is not empty.
\<close>

theorem C10_empty_is_absent:
  assumes "env key = Some []"
  shows "GetEnv env key ds = ds
     \<and> GetEnvInt env key di = di
     \<and> GetEnvInt32 env key dj = dj
     \<and> GetEnvDuration groups env key dd = dd
     \<and> GetEnvBool env key db = db
     \<and> GetEnv env key ds = GetEnv (env(key := None)) key ds
     \<and> GetEnvInt env key di = GetEnvInt (env(key := None)) key di
     \<and> GetEnvInt32 env key dj = GetEnvInt32 (env(key := None)) key dj
     \<and> GetEnvDuration groups env key dd = GetEnvDuration groups (env(key := None)) key dd
     \<and> GetEnvBool env key db = GetEnvBool (env(key := None)) key db
     \<and> (ds \<noteq> [] \<longrightarrow> GetEnv env key ds \<noteq> [])"
proof -
  have present: "os_Getenv env key = []"
    using assms by (simp add: os_Getenv_def)
  have absent: "os_Getenv (env(key := None)) key = []"
    by (simp add: os_Getenv_def)
  show ?thesis
    by (simp add: GetEnv_def GetEnvInt_def GetEnvInt32_def GetEnvDuration_def GetEnvBool_def
        present absent)
qed


theorem C10_empty_is_absent_witness:
  "GetEnv (Map.empty(''SERVICE_NAME'' \<mapsto> [])) ''SERVICE_NAME'' ''unknown'' = ''unknown''
   \<and> GetEnvInt (Map.empty(''SERVICE_NAME'' \<mapsto> [])) ''SERVICE_NAME'' 8080 = 8080
   \<and> GetEnvInt32 (Map.empty(''SERVICE_NAME'' \<mapsto> [])) ''SERVICE_NAME'' 10 = 10
   \<and> GetEnvDuration (\<lambda>s. Some 1) (Map.empty(''SERVICE_NAME'' \<mapsto> [])) ''SERVICE_NAME'' 5 = 5
   \<and> GetEnvBool (Map.empty(''SERVICE_NAME'' \<mapsto> [])) ''SERVICE_NAME'' True = True"
proof -
  have h: "(Map.empty(''SERVICE_NAME'' \<mapsto> [])) ''SERVICE_NAME'' = Some []"
    by simp
  show ?thesis
    using h C10_empty_is_absent [of "Map.empty(''SERVICE_NAME'' \<mapsto> [])" "''SERVICE_NAME''"
        "''unknown''" 8080 10 "\<lambda>s. Some 1" 5 True]
    by simp
qed

section \<open>Properties of package logger\<close>

lemma From_With: "From (With ctx l) = l"
  by (simp add: From_def With_def context_WithValue_def context_Value_def)

lemma From_other_key:
  "k \<noteq> ctxKey \<Longrightarrow> From (context_WithValue ctx k v) = From ctx"
  by (simp add: From_def context_WithValue_def context_Value_def)

lemma From_no_logger:
  assumes "ctxKey \<notin> fst ` set ctx"
  shows "From ctx = Nop"
proof -
  have "map_of ctx ctxKey = None"
    using assms by (simp add: map_of_eq_None_iff)
  then show ?thesis
    by (simp add: From_def context_Value_def)
qed

lemma Nop_no_event: "lvl < Disabled \<Longrightarrow> newEvent Nop lvl world = None"
  by (simp add: newEvent_def should_def Nop_def Logger_Level_def zerolog_New_def)

lemma Nop_silent:
  "lvl < Disabled \<Longrightarrow> Event_Msg (Event_field k v (newEvent Nop lvl world)) msg world = world"
  by (simp add: Nop_no_event Event_field_def Event_Msg_def)

text \<open>
  Claim C6. For every context \<open>ctx\<close> and logger \<open>l\<close>, \<open>From (With ctx l) = l\<close>, also
  after values were attached under other keys; a context that carries no logger yields
  zerolog's disabled logger \<open>Nop\<close>, a logger value like any other, on which
  \<open>Info\<close>, \<open>Warn\<close> and \<open>Error\<close> write nothing. \<open>From\<close> is a total function: it
  returns a logger for every context.
\<close>

theorem C6_From_With:
  "From (With ctx l) = l
   \<and> (\<forall>k v. k \<noteq> ctxKey \<longrightarrow> From (context_WithValue (With ctx l) k v) = l)
   \<and> (ctxKey \<notin> fst ` set ctx \<longrightarrow> From ctx = Nop)
   \<and> From context_Background = Nop
   \<and> Event_Msg (Logger_Info Nop world) msg world = world
   \<and> Event_Msg (Logger_Warn Nop world) msg world = world
   \<and> Event_Msg (Logger_Error Nop world) msg world = world"
proof -
  have silent: "newEvent Nop InfoLevel world = None" "newEvent Nop WarnLevel world = None"
    "newEvent Nop ErrorLevel world = None"
    by (simp_all add: Nop_no_event InfoLevel_def WarnLevel_def ErrorLevel_def Disabled_def)
  have bg: "From context_Background = Nop"
    by (simp add: From_no_logger context_Background_def)
  show ?thesis
    by (simp add: From_With From_other_key From_no_logger bg silent Logger_Info_def
        Logger_Warn_def Logger_Error_def Event_Msg_def)
qed

theorem C6_From_With_witness:
  "From (With context_Background (New Map.empty ''info'' ''api'')) = New Map.empty ''info'' ''api''
   \<and> From (context_WithValue (With context_Background (New Map.empty ''info'' ''api''))
        RequestIDKey (StringVal ''req-1'')) = New Map.empty ''info'' ''api''
   \<and> From (context_WithValue context_Background RequestIDKey (StringVal ''req-1'')) = Nop
   \<and> lg_level Nop = 7"
proof -
  have nokey: "ctxKey \<notin> fst ` set (context_WithValue context_Background RequestIDKey (StringVal ''req-1''))"
    by (simp add: context_WithValue_def context_Background_def)
  have key: "RequestIDKey \<noteq> ctxKey"
    by simp
  show ?thesis
    using nokey key
      C6_From_With [of context_Background "New Map.empty ''info'' ''api''"]
      C6_From_With [of "context_WithValue context_Background RequestIDKey (StringVal ''req-1'')" Nop]
    by (simp add: Nop_def Logger_Level_def zerolog_New_def Disabled_def)
qed

section \<open>Properties of the request-logging middleware\<close>

lemma should_cong:
  "lg_w l' = lg_w l \<Longrightarrow> lg_level l' = lg_level l \<Longrightarrow> should l' lvl world = should l lvl world"
  by (simp add: should_def)

lemma Context_preserves [simp]:
  "lg_w (Logger_With l) = lg_w l" "lg_level (Logger_With l) = lg_level l"
  "lg_w (Context_Str k v l) = lg_w l" "lg_level (Context_Str k v l) = lg_level l"
  "lg_w (Context_Timestamp l) = lg_w l" "lg_level (Context_Timestamp l) = lg_level l"
  "lg_w (Context_Logger l) = lg_w l" "lg_level (Context_Logger l) = lg_level l"
  by (simp_all add: Logger_With_def Context_Str_def Context_Timestamp_def Context_Logger_def)

lemma written_Event_Msg:
  "written (Event_Msg e msg world) =
     written world @
       (case e of
          None \<Rightarrow> []
        | Some ev \<Rightarrow>
            [\<lparr> line_writer = ev_w ev, line_level = ev_level ev,
               line_fields = ev_fields ev, line_msg = msg \<rparr>])"
  by (simp add: Event_Msg_def split: option.splits)

lemma Event_field_newEvent:
  "Event_field k v e = (case e of None \<Rightarrow> None | Some ev \<Rightarrow> Some (ev\<lparr>ev_fields := ev_fields ev @ [(k, v)]\<rparr>))"
  by (simp add: Event_field_def)

text \<open>The lines that a completed event adds: none when the logger is not enabled.\<close>

lemma completion_lines:
  assumes "lg_w rl = lg_w log" "lg_level rl = lg_level log"
  shows "\<exists>lines.
           written (Event_Msg (Event_Dur k3 d (Event_Int k2 b (Event_Int k1 s (newEvent rl lvl world)))) msg world) =
             written world @ lines \<and>
           (if should log lvl world
            then \<exists>ln. lines = [ln] \<and> line_level ln = lvl \<and> line_msg ln = msg
            else lines = [])"
proof (cases "should log lvl world")
  case False
  then have "\<not> should rl lvl world"
    using should_cong [OF assms] by simp
  then have "newEvent rl lvl world = None"
    by (simp add: newEvent_def)
  then have "written (Event_Msg (Event_Dur k3 d (Event_Int k2 b (Event_Int k1 s (newEvent rl lvl world)))) msg world) =
      written world @ []"
    by (simp add: written_Event_Msg Event_Dur_def Event_Int_def Event_field_def)
  with False show ?thesis
    by metis
next
  case True
  then obtain wr where wr: "lg_w log = Some wr"
    by (auto simp: should_def split: if_splits)
  have "should rl lvl world"
    using True should_cong [OF assms] by simp
  then have ev: "newEvent rl lvl world = Some \<lparr> ev_w = wr, ev_level = lvl, ev_fields = lg_fields rl \<rparr>"
    using wr assms by (simp add: newEvent_def)
  define ln where "ln = \<lparr> line_writer = wr, line_level = lvl,
    line_fields = lg_fields rl @ [(k1, FInt s), (k2, FInt b), (k3, FDur d)], line_msg = msg \<rparr>"
  have "written (Event_Msg (Event_Dur k3 d (Event_Int k2 b (Event_Int k1 s (newEvent rl lvl world)))) msg world) =
      written world @ [ln]"
    by (simp add: ev ln_def written_Event_Msg Event_Dur_def Event_Int_def Event_field_def)
  moreover have "line_level ln = lvl" "line_msg ln = msg"
    by (simp_all add: ln_def)
  ultimately show ?thesis
    using True by metis
qed

lemma event_for_status:
  "(if (status::int) \<ge> 500 then Logger_Error rl world
    else if status \<ge> 400 then Logger_Warn rl world
    else Logger_Info rl world) =
   newEvent rl (if 500 \<le> status then ErrorLevel else if 400 \<le> status then WarnLevel else InfoLevel) world"
  by (simp add: Logger_Error_def Logger_Warn_def Logger_Info_def)

lemma skipMap_lookup:
  "(case foldl (\<lambda>m p. m(p \<mapsto> True)) m0 ps path of None \<Rightarrow> False | Some b \<Rightarrow> b) =
     (path \<in> set ps \<or> (case m0 path of None \<Rightarrow> False | Some b \<Rightarrow> b))"
  by (induction ps arbitrary: m0) auto

lemma skipMap_lookup_empty:
  "(case foldl (\<lambda>m p. m(p \<mapsto> True)) Map.empty ps path of None \<Rightarrow> False | Some b \<Rightarrow> b) =
     (path \<in> set ps)"
  by (simp add: skipMap_lookup)

lemma RequestLogger_unfold:
  "RequestLogger log next w r world =
     (case next (NewWrapResponseWriter w (ProtoMajor r))
             (Request_WithContext r (With (Request_Context r)
                (Context_Logger
                     (Context_Str ''remote_addr'' (RemoteAddr r)
                       (Context_Str ''path'' (URL_Path r)
                         (Context_Str ''method'' (Method r)
                           (Context_Str ''request_id''
                              (if GetReqID (Request_Context r) = [] then ''unknown'' else GetReqID (Request_Context r))
                              (Logger_With log)))))))) world of
        None \<Rightarrow> None
      | Some (ww, world1) \<Rightarrow>
          Some (Unwrap ww,
            Event_Msg
              (Event_Dur ''duration'' (time_Since world1 (clock world))
                (Event_Int ''bytes'' (BytesWritten ww)
                  (Event_Int ''status'' (Status ww)
                    (newEvent
                      (Context_Logger
                        (Context_Str ''remote_addr'' (RemoteAddr r)
                          (Context_Str ''path'' (URL_Path r)
                            (Context_Str ''method'' (Method r)
                              (Context_Str ''request_id''
                                (if GetReqID (Request_Context r) = [] then ''unknown'' else GetReqID (Request_Context r))
                                (Logger_With log))))))
                      (if 500 \<le> Status ww then ErrorLevel else if 400 \<le> Status ww then WarnLevel else InfoLevel)
                      world1))))
              ''request completed'' world1))"
  unfolding RequestLogger_def Let_def event_for_status
  by (simp add: Request_WithContext_def cong: option.case_cong if_cong)


lemma RequestLogger_result:
  assumes "RequestLogger log next w r world = Some (w', world'')"
  shows "\<exists>ww world1 rl lines.
           next (NewWrapResponseWriter w (ProtoMajor r))
             (Request_WithContext r (With (Request_Context r) rl)) world = Some (ww, world1) \<and>
           w' = Unwrap ww \<and>
           written world'' = written world1 @ lines \<and>
           (if should log (if 500 \<le> Status ww then ErrorLevel else if 400 \<le> Status ww then WarnLevel else InfoLevel) world1
            then \<exists>ln. lines = [ln] \<and>
                   line_level ln = (if 500 \<le> Status ww then ErrorLevel else if 400 \<le> Status ww then WarnLevel else InfoLevel) \<and>
                   line_msg ln = ''request completed''
            else lines = [])"
proof -
  define rl where "rl = Context_Logger
                     (Context_Str ''remote_addr'' (RemoteAddr r)
                       (Context_Str ''path'' (URL_Path r)
                         (Context_Str ''method'' (Method r)
                           (Context_Str ''request_id''
                             (if GetReqID (Request_Context r) = [] then ''unknown'' else GetReqID (Request_Context r))
                             (Logger_With log)))))"
  define r1 where "r1 = Request_WithContext r (With (Request_Context r) rl)"
  have same: "lg_w rl = lg_w log" "lg_level rl = lg_level log"
    by (simp_all add: rl_def)
  have unf: "(case next (NewWrapResponseWriter w (ProtoMajor r)) r1 world of
        None \<Rightarrow> None
      | Some (ww, world1) \<Rightarrow>
          Some (Unwrap ww,
            Event_Msg
              (Event_Dur ''duration'' (time_Since world1 (clock world))
                (Event_Int ''bytes'' (BytesWritten ww)
                  (Event_Int ''status'' (Status ww)
                    (newEvent rl
                      (if 500 \<le> Status ww then ErrorLevel else if 400 \<le> Status ww then WarnLevel else InfoLevel)
                      world1))))
              ''request completed'' world1)) = Some (w', world'')"
    using assms unfolding RequestLogger_unfold rl_def r1_def .
  then obtain ww world1 where
    nxt: "next (NewWrapResponseWriter w (ProtoMajor r)) r1 world = Some (ww, world1)"
    by (cases "next (NewWrapResponseWriter w (ProtoMajor r)) r1 world") auto
  with unf have res: "w' = Unwrap ww"
      "world'' = Event_Msg
                    (Event_Dur ''duration'' (time_Since world1 (clock world))
                      (Event_Int ''bytes'' (BytesWritten ww)
                        (Event_Int ''status'' (Status ww)
                          (newEvent rl (if 500 \<le> Status ww then ErrorLevel else if 400 \<le> Status ww then WarnLevel else InfoLevel) world1))))
                    ''request completed'' world1"
    by simp_all
  obtain lines where
    "written world'' = written world1 @ lines"
    "if should log (if 500 \<le> Status ww then ErrorLevel else if 400 \<le> Status ww then WarnLevel else InfoLevel) world1
     then \<exists>ln. lines = [ln] \<and>
            line_level ln = (if 500 \<le> Status ww then ErrorLevel else if 400 \<le> Status ww then WarnLevel else InfoLevel) \<and>
            line_msg ln = ''request completed''
     else lines = []"
    using completion_lines [OF same] unfolding res(2) by blast
  with nxt res(1) show ?thesis
    unfolding r1_def by blast
qed


lemma RequestLoggerWithOpts_skip:
  assumes "URL_Path r \<in> set (SkipPaths opts)"
  shows "RequestLoggerWithOpts log opts next w r world = next w r world"
  using assms unfolding RequestLoggerWithOpts_def Let_def skipMap_lookup_empty by simp

lemma RequestLoggerWithOpts_unfold:
  assumes "URL_Path r \<notin> set (SkipPaths opts)"
  shows "RequestLoggerWithOpts log opts next w r world =
     (case next (NewWrapResponseWriter w (ProtoMajor r))
             (Request_WithContext r (With (Request_Context r)
                (Context_Logger
                   (Context_Str ''user_agent'' (Request_UserAgent r)
                     (Context_Str ''remote_addr'' (RemoteAddr r)
                       (Context_Str ''path'' (URL_Path r)
                         (Context_Str ''method'' (Method r)
                           (Context_Str ''request_id''
                              (if GetReqID (Request_Context r) = [] then ''unknown'' else GetReqID (Request_Context r))
                              (Logger_With log))))))))) world of
        None \<Rightarrow> None
      | Some (ww, world1) \<Rightarrow>
          Some (Unwrap ww,
            Event_Msg
              (Event_Dur ''duration'' (time_Since world1 (clock world))
                (Event_Int ''bytes'' (BytesWritten ww)
                  (Event_Int ''status'' (Status ww)
                    (newEvent
                      (Context_Logger
                        (Context_Str ''user_agent'' (Request_UserAgent r)
                          (Context_Str ''remote_addr'' (RemoteAddr r)
                            (Context_Str ''path'' (URL_Path r)
                              (Context_Str ''method'' (Method r)
                                (Context_Str ''request_id''
                                  (if GetReqID (Request_Context r) = [] then ''unknown'' else GetReqID (Request_Context r))
                                  (Logger_With log)))))))
                      (if 500 \<le> Status ww then ErrorLevel else if 400 \<le> Status ww then WarnLevel else InfoLevel)
                      world1))))
              ''request completed'' world1))"
  using assms unfolding RequestLoggerWithOpts_def Let_def event_for_status skipMap_lookup_empty
  by (simp add: Request_WithContext_def Request_UserAgent_def cong: option.case_cong if_cong)

lemma RequestLoggerWithOpts_result:
  assumes "URL_Path r \<notin> set (SkipPaths opts)"
    and "RequestLoggerWithOpts log opts next w r world = Some (w', world'')"
  shows "\<exists>ww world1 rl lines.
           next (NewWrapResponseWriter w (ProtoMajor r))
             (Request_WithContext r (With (Request_Context r) rl)) world = Some (ww, world1) \<and>
           w' = Unwrap ww \<and>
           written world'' = written world1 @ lines \<and>
           (if should log (if 500 \<le> Status ww then ErrorLevel else if 400 \<le> Status ww then WarnLevel else InfoLevel) world1
            then \<exists>ln. lines = [ln] \<and>
                   line_level ln = (if 500 \<le> Status ww then ErrorLevel else if 400 \<le> Status ww then WarnLevel else InfoLevel) \<and>
                   line_msg ln = ''request completed''
            else lines = [])"
proof -
  define rl where "rl = Context_Logger
                   (Context_Str ''user_agent'' (Request_UserAgent r)
                     (Context_Str ''remote_addr'' (RemoteAddr r)
                       (Context_Str ''path'' (URL_Path r)
                         (Context_Str ''method'' (Method r)
                           (Context_Str ''request_id''
                             (if GetReqID (Request_Context r) = [] then ''unknown'' else GetReqID (Request_Context r))
                             (Logger_With log))))))"
  define r1 where "r1 = Request_WithContext r (With (Request_Context r) rl)"
  have same: "lg_w rl = lg_w log" "lg_level rl = lg_level log"
    by (simp_all add: rl_def)
  have unf: "(case next (NewWrapResponseWriter w (ProtoMajor r)) r1 world of
        None \<Rightarrow> None
      | Some (ww, world1) \<Rightarrow>
          Some (Unwrap ww,
            Event_Msg
              (Event_Dur ''duration'' (time_Since world1 (clock world))
                (Event_Int ''bytes'' (BytesWritten ww)
                  (Event_Int ''status'' (Status ww)
                    (newEvent rl
                      (if 500 \<le> Status ww then ErrorLevel else if 400 \<le> Status ww then WarnLevel else InfoLevel)
                      world1))))
              ''request completed'' world1)) = Some (w', world'')"
    using assms(2) unfolding RequestLoggerWithOpts_unfold [OF assms(1)] rl_def r1_def .
  then obtain ww world1 where
    nxt: "next (NewWrapResponseWriter w (ProtoMajor r)) r1 world = Some (ww, world1)"
    by (cases "next (NewWrapResponseWriter w (ProtoMajor r)) r1 world") auto
  with unf have res: "w' = Unwrap ww"
      "world'' = Event_Msg
                    (Event_Dur ''duration'' (time_Since world1 (clock world))
                      (Event_Int ''bytes'' (BytesWritten ww)
                        (Event_Int ''status'' (Status ww)
                          (newEvent rl (if 500 \<le> Status ww then ErrorLevel else if 400 \<le> Status ww then WarnLevel else InfoLevel) world1))))
                    ''request completed'' world1"
    by simp_all
  obtain lines where
    "written world'' = written world1 @ lines"
    "if should log (if 500 \<le> Status ww then ErrorLevel else if 400 \<le> Status ww then WarnLevel else InfoLevel) world1
     then \<exists>ln. lines = [ln] \<and>
            line_level ln = (if 500 \<le> Status ww then ErrorLevel else if 400 \<le> Status ww then WarnLevel else InfoLevel) \<and>
            line_msg ln = ''request completed''
     else lines = []"
    using completion_lines [OF same] unfolding res(2) by blast
  with nxt res(1) show ?thesis
    unfolding r1_def by blast
qed


text \<open>
  Claim C4. Whenever \<open>RequestLogger\<close>, or \<open>RequestLoggerWithOpts\<close> on a path that is
  not skipped, returns, it has added to the lines that the handler left behind nothing
  but the completion line, and the level of that line is chosen from the status that the
  wrapper recorded: error for a status of 500 or more, warning for a status from 400 to
  499, info for every other status. The line is written when the logger is enabled for
  that level.
\<close>

theorem C4_severity_by_status:
  "(RequestLogger log next w r world = Some (w', world'') \<longrightarrow>
      (\<exists>ww world1 r1 lines.
          next (NewWrapResponseWriter w (ProtoMajor r)) r1 world = Some (ww, world1) \<and>
          written world'' = written world1 @ lines \<and>
          (if should log (if 500 \<le> Status ww then ErrorLevel else if 400 \<le> Status ww then WarnLevel else InfoLevel) world1
           then \<exists>ln. lines = [ln] \<and>
                  line_level ln = (if 500 \<le> Status ww then ErrorLevel else if 400 \<le> Status ww then WarnLevel else InfoLevel) \<and>
                  line_msg ln = ''request completed''
           else lines = [])))
   \<and> (URL_Path r \<notin> set (SkipPaths opts) \<and>
        RequestLoggerWithOpts log opts next w r world = Some (w', world'') \<longrightarrow>
      (\<exists>ww world1 r1 lines.
          next (NewWrapResponseWriter w (ProtoMajor r)) r1 world = Some (ww, world1) \<and>
          written world'' = written world1 @ lines \<and>
          (if should log (if 500 \<le> Status ww then ErrorLevel else if 400 \<le> Status ww then WarnLevel else InfoLevel) world1
           then \<exists>ln. lines = [ln] \<and>
                  line_level ln = (if 500 \<le> Status ww then ErrorLevel else if 400 \<le> Status ww then WarnLevel else InfoLevel) \<and>
                  line_msg ln = ''request completed''
           else lines = [])))"
proof (intro conjI impI)
  assume "RequestLogger log next w r world = Some (w', world'')"
  from RequestLogger_result [OF this]
  show "\<exists>ww world1 r1 lines.
          next (NewWrapResponseWriter w (ProtoMajor r)) r1 world = Some (ww, world1) \<and>
          written world'' = written world1 @ lines \<and>
          (if should log (if 500 \<le> Status ww then ErrorLevel else if 400 \<le> Status ww then WarnLevel else InfoLevel) world1
           then \<exists>ln. lines = [ln] \<and>
                  line_level ln = (if 500 \<le> Status ww then ErrorLevel else if 400 \<le> Status ww then WarnLevel else InfoLevel) \<and>
                  line_msg ln = ''request completed''
           else lines = [])"
    by blast
next
  assume "URL_Path r \<notin> set (SkipPaths opts) \<and>
        RequestLoggerWithOpts log opts next w r world = Some (w', world'')"
  then have a: "URL_Path r \<notin> set (SkipPaths opts)"
    and b: "RequestLoggerWithOpts log opts next w r world = Some (w', world'')"
    by simp_all
  from RequestLoggerWithOpts_result [OF a b]
  show "\<exists>ww world1 r1 lines.
          next (NewWrapResponseWriter w (ProtoMajor r)) r1 world = Some (ww, world1) \<and>
          written world'' = written world1 @ lines \<and>
          (if should log (if 500 \<le> Status ww then ErrorLevel else if 400 \<le> Status ww then WarnLevel else InfoLevel) world1
           then \<exists>ln. lines = [ln] \<and>
                  line_level ln = (if 500 \<le> Status ww then ErrorLevel else if 400 \<le> Status ww then WarnLevel else InfoLevel) \<and>
                  line_msg ln = ''request completed''
           else lines = [])"
    by blast
qed

text \<open>
  Claim C7, as amended. On a path of \<open>SkipPaths\<close> the middleware is the handler itself:
  the handler receives the writer and the request as they came (the context unchanged,
  no logger attached), and the world is what the handler left, with no line added. On any
  other path, when the handler returns, the handler has received the request with the
  per-request logger attached, and the middleware has added exactly one completion line
  if the logger is enabled for the level chosen from the status, and no line otherwise.
\<close>

theorem C7_skip_paths:
  "(URL_Path r \<in> set (SkipPaths opts) \<longrightarrow>
      RequestLoggerWithOpts log opts next w r world = next w r world)
   \<and> (URL_Path r \<notin> set (SkipPaths opts) \<and>
        RequestLoggerWithOpts log opts next w r world = Some (w', world'') \<longrightarrow>
      (\<exists>ww world1 rl lines.
          next (NewWrapResponseWriter w (ProtoMajor r))
            (Request_WithContext r (With (Request_Context r) rl)) world = Some (ww, world1) \<and>
          written world'' = written world1 @ lines \<and>
          (if should log (if 500 \<le> Status ww then ErrorLevel else if 400 \<le> Status ww then WarnLevel else InfoLevel) world1
           then length lines = 1 else lines = [])))"
proof (intro conjI impI)
  assume "URL_Path r \<in> set (SkipPaths opts)"
  then show "RequestLoggerWithOpts log opts next w r world = next w r world"
    by (rule RequestLoggerWithOpts_skip)
next
  assume "URL_Path r \<notin> set (SkipPaths opts) \<and>
        RequestLoggerWithOpts log opts next w r world = Some (w', world'')"
  then have a: "URL_Path r \<notin> set (SkipPaths opts)"
    and b: "RequestLoggerWithOpts log opts next w r world = Some (w', world'')"
    by simp_all
  from RequestLoggerWithOpts_result [OF a b] obtain ww world1 rl lines where
    n: "next (NewWrapResponseWriter w (ProtoMajor r))
          (Request_WithContext r (With (Request_Context r) rl)) world = Some (ww, world1)"
    and wr: "written world'' = written world1 @ lines"
    and l: "if should log (if 500 \<le> Status ww then ErrorLevel else if 400 \<le> Status ww then WarnLevel else InfoLevel) world1
            then \<exists>ln. lines = [ln] \<and>
                   line_level ln = (if 500 \<le> Status ww then ErrorLevel else if 400 \<le> Status ww then WarnLevel else InfoLevel) \<and>
                   line_msg ln = ''request completed''
            else lines = []"
    by blast
  from l have "if should log (if 500 \<le> Status ww then ErrorLevel else if 400 \<le> Status ww then WarnLevel else InfoLevel) world1
           then length lines = 1 else lines = []"
    by (auto split: if_splits)
  with n wr show "\<exists>ww world1 rl lines.
          next (NewWrapResponseWriter w (ProtoMajor r))
            (Request_WithContext r (With (Request_Context r) rl)) world = Some (ww, world1) \<and>
          written world'' = written world1 @ lines \<and>
          (if should log (if 500 \<le> Status ww then ErrorLevel else if 400 \<le> Status ww then WarnLevel else InfoLevel) world1
           then length lines = 1 else lines = [])"
    by blast
qed

lemma statusHandler_wrapped:
  "statusHandler code n (NewWrapResponseWriter w p) r1 world = Some (ww, world1) \<longleftrightarrow>
     ww = Wrapped w code n \<and> world1 = world"
  by (auto simp: statusHandler_def NewWrapResponseWriter_def)

lemma New_enabled:
  "should (New env level name) lvl world \<longleftrightarrow> \<not> (lvl < parseLevel level \<or> lvl < globalLevel world)"
  by (simp add: should_def New_def Let_def Logger_Level_def zerolog_New_def)

theorem C4_severity_by_status_witness:
  "(\<exists>w' world''.
      RequestLogger (New Map.empty ''info'' ''api'') (statusHandler 200 2) (Plain ()) usersRequest quietWorld
        = Some (w', world'') \<and>
      map line_level (written world'') = [InfoLevel])
   \<and> (\<exists>w' world''.
      RequestLogger (New Map.empty ''info'' ''api'') (statusHandler 404 9) (Plain ()) usersRequest quietWorld
        = Some (w', world'') \<and>
      map line_level (written world'') = [WarnLevel])
   \<and> (\<exists>w' world''.
      RequestLoggerWithOpts (New Map.empty ''info'' ''api'') skipHealth (statusHandler 500 21) (Plain ())
        usersRequest quietWorld = Some (w', world'') \<and>
      map line_level (written world'') = [ErrorLevel])"
proof -
  let ?L = "New Map.empty ''info'' ''api''"
  have en: "should ?L InfoLevel quietWorld" "should ?L WarnLevel quietWorld"
    "should ?L ErrorLevel quietWorld"
    by (simp_all add: New_enabled parseLevel_def quietWorld_def InfoLevel_def WarnLevel_def
        ErrorLevel_def TraceLevel_def)
  have q: "written quietWorld = []"
    by (simp add: quietWorld_def)
  obtain w1 v1 where h1:
    "RequestLogger ?L (statusHandler 200 2) (Plain ()) usersRequest quietWorld = Some (w1, v1)"
    by (simp add: RequestLogger_unfold statusHandler_def NewWrapResponseWriter_def)
  obtain w2 v2 where h2:
    "RequestLogger ?L (statusHandler 404 9) (Plain ()) usersRequest quietWorld = Some (w2, v2)"
    by (simp add: RequestLogger_unfold statusHandler_def NewWrapResponseWriter_def)
  have ns: "URL_Path usersRequest \<notin> set (SkipPaths skipHealth)"
    by (simp add: usersRequest_def skipHealth_def)
  obtain w3 v3 where h3:
    "RequestLoggerWithOpts ?L skipHealth (statusHandler 500 21) (Plain ()) usersRequest quietWorld
       = Some (w3, v3)"
    by (simp add: RequestLoggerWithOpts_unfold [OF ns] statusHandler_def NewWrapResponseWriter_def)
  have "map line_level (written v1) = [InfoLevel]"
    using C4_severity_by_status [THEN conjunct1, rule_format, OF h1] en q
    by (auto simp: statusHandler_wrapped)
  moreover have "map line_level (written v2) = [WarnLevel]"
    using C4_severity_by_status [THEN conjunct1, rule_format, OF h2] en q
    by (auto simp: statusHandler_wrapped)
  moreover have "map line_level (written v3) = [ErrorLevel]"
    using C4_severity_by_status [THEN conjunct2, rule_format, OF conjI [OF ns h3]] en q
    by (auto simp: statusHandler_wrapped)
  ultimately show ?thesis
    using h1 h2 h3 by simp
qed

theorem C7_counterexample:
  "URL_Path usersRequest \<notin> set (SkipPaths skipHealth)
   \<and> RequestLoggerWithOpts (New Map.empty ''error'' ''api'') skipHealth (statusHandler 200 2)
         (Plain ()) usersRequest quietWorld = Some (Plain (), quietWorld)
   \<and> written quietWorld = []"
proof -
  have ns: "URL_Path usersRequest \<notin> set (SkipPaths skipHealth)"
    by (simp add: usersRequest_def skipHealth_def)
  have off: "newEvent rl InfoLevel quietWorld = None"
    if "lg_w rl = lg_w (New Map.empty ''error'' ''api'')"
      "lg_level rl = lg_level (New Map.empty ''error'' ''api'')" for rl
  proof -
    have "\<not> should rl InfoLevel quietWorld"
      using should_cong [OF that] 
      by (simp add: New_enabled parseLevel_def InfoLevel_def ErrorLevel_def)
    then show ?thesis
      by (simp add: newEvent_def)
  qed
  show ?thesis
    using ns
    by (simp add: RequestLoggerWithOpts_unfold [OF ns] statusHandler_def NewWrapResponseWriter_def
        off Event_Int_def Event_Dur_def Event_field_def Event_Msg_def)
      (simp add: quietWorld_def)
qed

theorem C7_skip_paths_witness:
  "RequestLoggerWithOpts (New Map.empty ''info'' ''api'') skipHealth (statusHandler 200 2)
         (Plain ()) healthRequest quietWorld = Some (Plain (), quietWorld)
   \<and> (\<exists>w' world''.
      RequestLoggerWithOpts (New Map.empty ''info'' ''api'') skipHealth (statusHandler 200 2) (Plain ())
        usersRequest quietWorld = Some (w', world'') \<and>
      length (written world'') = 1)"
proof -
  let ?L = "New Map.empty ''info'' ''api''"
  have s: "URL_Path healthRequest \<in> set (SkipPaths skipHealth)"
    by (simp add: healthRequest_def usersRequest_def skipHealth_def)
  have ns: "URL_Path usersRequest \<notin> set (SkipPaths skipHealth)"
    by (simp add: usersRequest_def skipHealth_def)
  have en: "should ?L InfoLevel quietWorld"
    by (simp add: New_enabled parseLevel_def quietWorld_def InfoLevel_def TraceLevel_def)
  have q: "written quietWorld = []"
    by (simp add: quietWorld_def)
  have first: "RequestLoggerWithOpts ?L skipHealth (statusHandler 200 2)
         (Plain ()) healthRequest quietWorld = Some (Plain (), quietWorld)"
    using C7_skip_paths [THEN conjunct1, rule_format, OF s, of ?L "statusHandler 200 2" "Plain ()" quietWorld]
    by (simp add: statusHandler_def)
  obtain w3 v3 where h3:
    "RequestLoggerWithOpts ?L skipHealth (statusHandler 200 2) (Plain ()) usersRequest quietWorld
       = Some (w3, v3)"
    by (simp add: RequestLoggerWithOpts_unfold [OF ns] statusHandler_def NewWrapResponseWriter_def)
  have "length (written v3) = 1"
    using C7_skip_paths [THEN conjunct2, rule_format, OF conjI [OF ns h3]] en q
    by (auto simp: statusHandler_wrapped)
  with first h3 show ?thesis
    by simp
qed

section \<open>Properties of the JSON response helpers\<close>

lemma rec_body_simps [simp]:
  "rec_body (Header_Set w k v) = rec_body w"
  "rec_body (Header_Del w k) = rec_body w"
  "rec_body (WriteHeader w code) = rec_body w"
  "rec_body (Write w c) = rec_body w @ [c]"
  by (simp_all add: Header_Set_def Header_Del_def WriteHeader_def Write_def Let_def)

lemma rec_body_http_Error:
  "rec_body (http_Error w msg code) = rec_body w @ [Text (msg @ [CHR 0x0A])]"
  by (simp add: http_Error_def Let_def)

lemma rec_body_WriteJSON:
  "rec_body (WriteJSON w r status v) =
     rec_body w @
       (if v = VOther NilValue then []
        else (case json_Marshal v of
                None \<Rightarrow> [Text (encodeFailed @ [CHR 0x0A])]
              | Some j \<Rightarrow> [JSONLine j]))"
  by (simp add: WriteJSON_def Let_def Encoder_Encode_def rec_body_http_Error split: option.splits)

text \<open>
  Claim C2, as amended. Each helper appends one chunk to the body. \<open>WriteData\<close> and
  \<open>WriteDataWithMeta\<close> write one JSON object with the members \<open>data\<close>, \<open>meta\<close> and
  \<open>request_id\<close> in this order, where \<open>data\<close> is present when the payload is not
  \<open>nil\<close>, \<open>meta\<close> when the metadata is not \<open>nil\<close>, and \<open>request_id\<close> when the
  request id is not empty; when the payload or the metadata cannot be marshalled, they
  write the static error text instead. \<open>WriteError\<close> writes one JSON object with the
  member \<open>error\<close>, an object with \<open>code\<close> and \<open>message\<close>, and \<open>request_id\<close> when the
  request id is not empty.
\<close>

theorem C2_envelopes:
  "(let rid = (if GetReqID (Request_Context r) = [] then []
               else [(''request_id'', JString (GetReqID (Request_Context r)))])
    in rec_body (WriteData w r status data) =
         rec_body w @
           [case data of
              Unsupported \<Rightarrow> Text (encodeFailed @ [CHR 0x0A])
            | NilValue \<Rightarrow> JSONLine (JObject rid)
            | Marshals j \<Rightarrow> JSONLine (JObject ((''data'', j) # rid))]
     \<and> rec_body (WriteDataWithMeta w r status data meta) =
         rec_body w @
           [if data = Unsupported \<or> meta = Unsupported then Text (encodeFailed @ [CHR 0x0A])
            else JSONLine (JObject
                   ((case data of Marshals j \<Rightarrow> [(''data'', j)] | _ \<Rightarrow> []) @
                    (case meta of Marshals j \<Rightarrow> [(''meta'', j)] | _ \<Rightarrow> []) @ rid))]
     \<and> rec_body (WriteError w r status code message) =
         rec_body w @
           [JSONLine (JObject
              ((''error'', JObject [(''code'', JString code), (''message'', JString message)]) # rid))])"
proof -
  have d: "rec_body (WriteData w r status data) =
         rec_body w @
           [case data of
              Unsupported \<Rightarrow> Text (encodeFailed @ [CHR 0x0A])
            | NilValue \<Rightarrow> JSONLine (JObject (if GetReqID (Request_Context r) = [] then []
               else [(''request_id'', JString (GetReqID (Request_Context r)))]))
            | Marshals j \<Rightarrow> JSONLine (JObject ((''data'', j) # (if GetReqID (Request_Context r) = [] then []
               else [(''request_id'', JString (GetReqID (Request_Context r)))])))]"
    by (cases data) (simp_all add: WriteData_def rec_body_WriteJSON marshalResponse_def marshalString_def)
  have m: "rec_body (WriteDataWithMeta w r status data meta) =
         rec_body w @
           [if data = Unsupported \<or> meta = Unsupported then Text (encodeFailed @ [CHR 0x0A])
            else JSONLine (JObject
                   ((case data of Marshals j \<Rightarrow> [(''data'', j)] | _ \<Rightarrow> []) @
                    (case meta of Marshals j \<Rightarrow> [(''meta'', j)] | _ \<Rightarrow> []) @
                    (if GetReqID (Request_Context r) = [] then []
                     else [(''request_id'', JString (GetReqID (Request_Context r)))])))]"
    by (cases data; cases meta)
      (simp_all add: WriteDataWithMeta_def rec_body_WriteJSON marshalResponse_def marshalString_def)
  have e: "rec_body (WriteError w r status code message) =
         rec_body w @
           [JSONLine (JObject
              ((''error'', JObject [(''code'', JString code), (''message'', JString message)]) #
               (if GetReqID (Request_Context r) = [] then []
                else [(''request_id'', JString (GetReqID (Request_Context r)))])))]"
    by (simp add: WriteError_def rec_body_WriteJSON marshalErrorResponse_def marshalErrorDetail_def
        marshalString_def)
  show ?thesis
    unfolding Let_def using d m e by simp
qed

lemma GetReqID_examples:
  "GetReqID (Request_Context tracedRequest) = ''req-1''"
  "GetReqID (Request_Context usersRequest) = []"
  by (simp_all add: GetReqID_def Request_Context_def tracedRequest_def usersRequest_def
      context_Value_def context_WithValue_def context_Background_def)

theorem C2_envelopes_witness:
  "rec_body (WriteData newRecorder tracedRequest 200 (Marshals (JObject [(''id'', JString ''1'')]))) =
     [JSONLine (JObject [(''data'', JObject [(''id'', JString ''1'')]), (''request_id'', JString ''req-1'')])]
   \<and> rec_body (WriteData newRecorder usersRequest 200 (Marshals (JObject [(''id'', JString ''1'')]))) =
     [JSONLine (JObject [(''data'', JObject [(''id'', JString ''1'')])])]
   \<and> rec_body (WriteDataWithMeta newRecorder tracedRequest 200 (Marshals (JArray []))
        (Marshals (JObject [(''total'', JNumber 100)]))) =
     [JSONLine (JObject [(''data'', JArray []), (''meta'', JObject [(''total'', JNumber 100)]),
        (''request_id'', JString ''req-1'')])]
   \<and> rec_body (WriteError newRecorder tracedRequest 400 ''bad_request'' ''invalid email'') =
     [JSONLine (JObject [(''error'', JObject [(''code'', JString ''bad_request''),
        (''message'', JString ''invalid email'')]), (''request_id'', JString ''req-1'')])]"
  using C2_envelopes [of tracedRequest newRecorder 200 "Marshals (JObject [(''id'', JString ''1'')])"]
    C2_envelopes [of usersRequest newRecorder 200 "Marshals (JObject [(''id'', JString ''1'')])"]
    C2_envelopes [of tracedRequest newRecorder 200 "Marshals (JArray [])"
      "Marshals (JObject [(''total'', JNumber 100)])"]
    C2_envelopes [of tracedRequest newRecorder 400 _ _ "''bad_request''" "''invalid email''"]
  by (simp add: GetReqID_examples newRecorder_def Let_def)

text \<open>
  Claim C2 as stated fails on the \<open>nil\<close> payload: the body of
  \<^verbatim>\<open>WriteData(w, r, 200, nil)\<close> is the object with the only member \<open>request_id\<close>, with no
  member \<open>data\<close>; and with a payload that cannot be marshalled the body is no success
  envelope at all.
\<close>

theorem C2_counterexample:
  "rec_body (WriteData newRecorder tracedRequest 200 NilValue) =
     [JSONLine (JObject [(''request_id'', JString ''req-1'')])]
   \<and> rec_body (WriteData newRecorder usersRequest 200 NilValue) = [JSONLine (JObject [])]
   \<and> rec_body (WriteData newRecorder tracedRequest 200 Unsupported) =
     [Text (encodeFailed @ [CHR 0x0A])]"
  by (simp add: WriteData_def rec_body_WriteJSON marshalResponse_def marshalString_def
      GetReqID_examples newRecorder_def)

end
